theory Spec2Isabelle
  imports Main "HOL-Library.Word"
begin

section \<open>Go values shared by the embedded packages\<close>

text \<open>
  A Go pointer \<open>*T\<close> is \<open>T option\<close>: \<open>None\<close> is the nil pointer and \<open>Some v\<close>
  points to \<open>v\<close>. A Go slice \<open>[]T\<close> is nil or a sequence of elements, and a nil slice
  is not the same value as an empty non-nil slice, so a slice is \<open>T list option\<close> with
  \<open>None\<close> for nil. \<open>uint32\<close> and \<open>byte\<close> are machine words.
\<close>

type_synonym 'a ptr = "'a option"
type_synonym 'a slice = "'a list option"
type_synonym uint32 = "32 word"
type_synonym byte = "8 word"

section \<open>accounts/usbwallet/trezor/messages-ethereum.pb.go\<close>

text \<open>
  The ten generated message structs. The three bookkeeping fields of every struct
  (\<open>state\<close>, \<open>sizeCache\<close>, \<open>unknownFields\<close>) are read by no getter and are left out.
  \<open>HDNodeType\<close> is declared in another generated file; it is the type parameter
  \<open>'hdnode\<close>.
\<close>

record EthereumGetPublicKey =
  AddressN :: "uint32 slice"
  ShowDisplay :: "bool ptr"

record 'hdnode EthereumPublicKey =
  Node :: "'hdnode ptr"
  Xpub :: "string ptr"

record EthereumGetAddress =
  AddressN :: "uint32 slice"
  ShowDisplay :: "bool ptr"

record EthereumAddress =
  AddressBin :: "byte slice"
  AddressHex :: "string ptr"

record EthereumSignTx =
  AddressN :: "uint32 slice"
  Nonce :: "byte slice"
  GasPrice :: "byte slice"
  GasLimit :: "byte slice"
  ToBin :: "byte slice"
  ToHex :: "string ptr"
  Value :: "byte slice"
  DataInitialChunk :: "byte slice"
  DataLength :: "uint32 ptr"
  ChainId :: "uint32 ptr"
  TxType :: "uint32 ptr"

record EthereumTxRequest =
  DataLength :: "uint32 ptr"
  SignatureV :: "uint32 ptr"
  SignatureR :: "byte slice"
  SignatureS :: "byte slice"

record EthereumTxAck =
  DataChunk :: "byte slice"

record EthereumSignMessage =
  AddressN :: "uint32 slice"
  Message :: "byte slice"

record EthereumMessageSignature =
  AddressBin :: "byte slice"
  Signature :: "byte slice"
  AddressHex :: "string ptr"

record EthereumVerifyMessage =
  AddressBin :: "byte slice"
  Signature :: "byte slice"
  Message :: "byte slice"
  AddressHex :: "string ptr"

text \<open>
  The two shapes of generated getter. A getter of a slice or message field tests the
  receiver only and returns the field as it is (nil included); a getter of an optional
  scalar tests the receiver and the field pointer and dereferences it, with the zero
  value of the scalar type in every other case.
\<close>

subsection \<open>EthereumGetPublicKey\<close>

definition EthereumGetPublicKey_GetAddressN :: "EthereumGetPublicKey ptr \<Rightarrow> uint32 slice" where
  "EthereumGetPublicKey_GetAddressN x =
     (case x of Some m \<Rightarrow> EthereumGetPublicKey.AddressN m | None \<Rightarrow> None)"

definition EthereumGetPublicKey_GetShowDisplay :: "EthereumGetPublicKey ptr \<Rightarrow> bool" where
  "EthereumGetPublicKey_GetShowDisplay x =
     (case x of
        Some m \<Rightarrow> (case EthereumGetPublicKey.ShowDisplay m of Some b \<Rightarrow> b | None \<Rightarrow> False)
      | None \<Rightarrow> False)"

subsection \<open>EthereumPublicKey\<close>

definition EthereumPublicKey_GetNode :: "'hdnode EthereumPublicKey ptr \<Rightarrow> 'hdnode ptr" where
  "EthereumPublicKey_GetNode x = (case x of Some m \<Rightarrow> Node m | None \<Rightarrow> None)"

definition EthereumPublicKey_GetXpub :: "'hdnode EthereumPublicKey ptr \<Rightarrow> string" where
  "EthereumPublicKey_GetXpub x =
     (case x of
        Some m \<Rightarrow> (case Xpub m of Some s \<Rightarrow> s | None \<Rightarrow> [])
      | None \<Rightarrow> [])"

subsection \<open>EthereumGetAddress\<close>

definition EthereumGetAddress_GetAddressN :: "EthereumGetAddress ptr \<Rightarrow> uint32 slice" where
  "EthereumGetAddress_GetAddressN x =
     (case x of Some m \<Rightarrow> EthereumGetAddress.AddressN m | None \<Rightarrow> None)"

definition EthereumGetAddress_GetShowDisplay :: "EthereumGetAddress ptr \<Rightarrow> bool" where
  "EthereumGetAddress_GetShowDisplay x =
     (case x of
        Some m \<Rightarrow> (case EthereumGetAddress.ShowDisplay m of Some b \<Rightarrow> b | None \<Rightarrow> False)
      | None \<Rightarrow> False)"

subsection \<open>EthereumAddress\<close>

definition EthereumAddress_GetAddressBin :: "EthereumAddress ptr \<Rightarrow> byte slice" where
  "EthereumAddress_GetAddressBin x =
     (case x of Some m \<Rightarrow> EthereumAddress.AddressBin m | None \<Rightarrow> None)"

definition EthereumAddress_GetAddressHex :: "EthereumAddress ptr \<Rightarrow> string" where
  "EthereumAddress_GetAddressHex x =
     (case x of
        Some m \<Rightarrow> (case EthereumAddress.AddressHex m of Some s \<Rightarrow> s | None \<Rightarrow> [])
      | None \<Rightarrow> [])"

subsection \<open>EthereumSignTx\<close>

definition EthereumSignTx_GetAddressN :: "EthereumSignTx ptr \<Rightarrow> uint32 slice" where
  "EthereumSignTx_GetAddressN x =
     (case x of Some m \<Rightarrow> EthereumSignTx.AddressN m | None \<Rightarrow> None)"

definition EthereumSignTx_GetNonce :: "EthereumSignTx ptr \<Rightarrow> byte slice" where
  "EthereumSignTx_GetNonce x = (case x of Some m \<Rightarrow> Nonce m | None \<Rightarrow> None)"

definition EthereumSignTx_GetGasPrice :: "EthereumSignTx ptr \<Rightarrow> byte slice" where
  "EthereumSignTx_GetGasPrice x = (case x of Some m \<Rightarrow> GasPrice m | None \<Rightarrow> None)"

definition EthereumSignTx_GetGasLimit :: "EthereumSignTx ptr \<Rightarrow> byte slice" where
  "EthereumSignTx_GetGasLimit x = (case x of Some m \<Rightarrow> GasLimit m | None \<Rightarrow> None)"

definition EthereumSignTx_GetToBin :: "EthereumSignTx ptr \<Rightarrow> byte slice" where
  "EthereumSignTx_GetToBin x = (case x of Some m \<Rightarrow> ToBin m | None \<Rightarrow> None)"

definition EthereumSignTx_GetToHex :: "EthereumSignTx ptr \<Rightarrow> string" where
  "EthereumSignTx_GetToHex x =
     (case x of
        Some m \<Rightarrow> (case ToHex m of Some s \<Rightarrow> s | None \<Rightarrow> [])
      | None \<Rightarrow> [])"

definition EthereumSignTx_GetValue :: "EthereumSignTx ptr \<Rightarrow> byte slice" where
  "EthereumSignTx_GetValue x = (case x of Some m \<Rightarrow> Value m | None \<Rightarrow> None)"

definition EthereumSignTx_GetDataInitialChunk :: "EthereumSignTx ptr \<Rightarrow> byte slice" where
  "EthereumSignTx_GetDataInitialChunk x =
     (case x of Some m \<Rightarrow> DataInitialChunk m | None \<Rightarrow> None)"

definition EthereumSignTx_GetDataLength :: "EthereumSignTx ptr \<Rightarrow> uint32" where
  "EthereumSignTx_GetDataLength x =
     (case x of
        Some m \<Rightarrow> (case EthereumSignTx.DataLength m of Some n \<Rightarrow> n | None \<Rightarrow> 0)
      | None \<Rightarrow> 0)"

definition EthereumSignTx_GetChainId :: "EthereumSignTx ptr \<Rightarrow> uint32" where
  "EthereumSignTx_GetChainId x =
     (case x of
        Some m \<Rightarrow> (case ChainId m of Some n \<Rightarrow> n | None \<Rightarrow> 0)
      | None \<Rightarrow> 0)"

definition EthereumSignTx_GetTxType :: "EthereumSignTx ptr \<Rightarrow> uint32" where
  "EthereumSignTx_GetTxType x =
     (case x of
        Some m \<Rightarrow> (case TxType m of Some n \<Rightarrow> n | None \<Rightarrow> 0)
      | None \<Rightarrow> 0)"

subsection \<open>EthereumTxRequest\<close>

definition EthereumTxRequest_GetDataLength :: "EthereumTxRequest ptr \<Rightarrow> uint32" where
  "EthereumTxRequest_GetDataLength x =
     (case x of
        Some m \<Rightarrow> (case EthereumTxRequest.DataLength m of Some n \<Rightarrow> n | None \<Rightarrow> 0)
      | None \<Rightarrow> 0)"

definition EthereumTxRequest_GetSignatureV :: "EthereumTxRequest ptr \<Rightarrow> uint32" where
  "EthereumTxRequest_GetSignatureV x =
     (case x of
        Some m \<Rightarrow> (case SignatureV m of Some n \<Rightarrow> n | None \<Rightarrow> 0)
      | None \<Rightarrow> 0)"

definition EthereumTxRequest_GetSignatureR :: "EthereumTxRequest ptr \<Rightarrow> byte slice" where
  "EthereumTxRequest_GetSignatureR x = (case x of Some m \<Rightarrow> SignatureR m | None \<Rightarrow> None)"

definition EthereumTxRequest_GetSignatureS :: "EthereumTxRequest ptr \<Rightarrow> byte slice" where
  "EthereumTxRequest_GetSignatureS x = (case x of Some m \<Rightarrow> SignatureS m | None \<Rightarrow> None)"

subsection \<open>EthereumTxAck\<close>

definition EthereumTxAck_GetDataChunk :: "EthereumTxAck ptr \<Rightarrow> byte slice" where
  "EthereumTxAck_GetDataChunk x = (case x of Some m \<Rightarrow> DataChunk m | None \<Rightarrow> None)"

subsection \<open>EthereumSignMessage\<close>

definition EthereumSignMessage_GetAddressN :: "EthereumSignMessage ptr \<Rightarrow> uint32 slice" where
  "EthereumSignMessage_GetAddressN x =
     (case x of Some m \<Rightarrow> EthereumSignMessage.AddressN m | None \<Rightarrow> None)"

definition EthereumSignMessage_GetMessage :: "EthereumSignMessage ptr \<Rightarrow> byte slice" where
  "EthereumSignMessage_GetMessage x =
     (case x of Some m \<Rightarrow> EthereumSignMessage.Message m | None \<Rightarrow> None)"

subsection \<open>EthereumMessageSignature\<close>

definition EthereumMessageSignature_GetAddressBin ::
  "EthereumMessageSignature ptr \<Rightarrow> byte slice" where
  "EthereumMessageSignature_GetAddressBin x =
     (case x of Some m \<Rightarrow> EthereumMessageSignature.AddressBin m | None \<Rightarrow> None)"

definition EthereumMessageSignature_GetSignature ::
  "EthereumMessageSignature ptr \<Rightarrow> byte slice" where
  "EthereumMessageSignature_GetSignature x =
     (case x of Some m \<Rightarrow> EthereumMessageSignature.Signature m | None \<Rightarrow> None)"

definition EthereumMessageSignature_GetAddressHex ::
  "EthereumMessageSignature ptr \<Rightarrow> string" where
  "EthereumMessageSignature_GetAddressHex x =
     (case x of
        Some m \<Rightarrow> (case EthereumMessageSignature.AddressHex m of Some s \<Rightarrow> s | None \<Rightarrow> [])
      | None \<Rightarrow> [])"

subsection \<open>EthereumVerifyMessage\<close>

definition EthereumVerifyMessage_GetAddressBin :: "EthereumVerifyMessage ptr \<Rightarrow> byte slice" where
  "EthereumVerifyMessage_GetAddressBin x =
     (case x of Some m \<Rightarrow> EthereumVerifyMessage.AddressBin m | None \<Rightarrow> None)"

definition EthereumVerifyMessage_GetSignature :: "EthereumVerifyMessage ptr \<Rightarrow> byte slice" where
  "EthereumVerifyMessage_GetSignature x =
     (case x of Some m \<Rightarrow> EthereumVerifyMessage.Signature m | None \<Rightarrow> None)"

definition EthereumVerifyMessage_GetMessage :: "EthereumVerifyMessage ptr \<Rightarrow> byte slice" where
  "EthereumVerifyMessage_GetMessage x =
     (case x of Some m \<Rightarrow> EthereumVerifyMessage.Message m | None \<Rightarrow> None)"

definition EthereumVerifyMessage_GetAddressHex :: "EthereumVerifyMessage ptr \<Rightarrow> string" where
  "EthereumVerifyMessage_GetAddressHex x =
     (case x of
        Some m \<Rightarrow> (case EthereumVerifyMessage.AddressHex m of Some s \<Rightarrow> s | None \<Rightarrow> [])
      | None \<Rightarrow> [])"

section \<open>p2p/discover/common.go\<close>

text \<open>
  \<open>time.Duration\<close> is a signed 64-bit count of nanoseconds. \<open>time.Second\<close> and
  \<open>time.Minute\<close> are the constants of Go's \<open>time\<close> package.
\<close>

type_synonym Duration = "64 word"

definition time_Second :: Duration where
  "time_Second = 1000000000"

definition time_Minute :: Duration where
  "time_Minute = 60 * time_Second"

text \<open>
  The settings of the discovery listener. The types of the other packages
  (\<open>ecdsa.PrivateKey\<close>, \<open>netutil.Netlist\<close>, the channel, \<open>enode.Node\<close>, \<open>log.Logger\<close>,
  \<open>enr.IdentityScheme\<close>, \<open>mclock.Clock\<close>) are type parameters; a pointer, channel or
  interface field is nil when it is \<open>None\<close>.
\<close>

record ('key, 'netlist, 'chan, 'node, 'logger, 'scheme, 'clock) Config =
  PrivateKey :: "'key ptr"
  NetRestrict :: "'netlist ptr"
  Unhandled :: "'chan ptr"
  Bootnodes :: "'node ptr slice"
  PingInterval :: Duration
  RefreshInterval :: Duration
  V5ProtocolID :: "byte list ptr"
  Log :: "'logger ptr"
  ValidSchemes :: "'scheme ptr"
  Clock :: "'clock ptr"

text \<open>
  \<open>withDefaults\<close> has a value receiver: it changes its own copy of the struct and returns
  it. The three defaults that come from other packages are parameters: \<open>log_Root\<close> is
  what \<open>log.Root()\<close> returns and \<open>enode_ValidSchemes\<close> the value of the package variable
  \<open>enode.ValidSchemes\<close> (interface values, so possibly nil), and \<open>mclock_System\<close> is the
  struct value \<open>mclock.System{}\<close>, which as an interface value is never nil.
\<close>

definition withDefaults ::
  "'logger ptr \<Rightarrow> 'scheme ptr \<Rightarrow> 'clock \<Rightarrow>
   ('key, 'netlist, 'chan, 'node, 'logger, 'scheme, 'clock) Config \<Rightarrow>
   ('key, 'netlist, 'chan, 'node, 'logger, 'scheme, 'clock) Config" where
  "withDefaults log_Root enode_ValidSchemes mclock_System cfg =
     (let cfg = (if PingInterval cfg = 0
                 then cfg\<lparr>PingInterval := 10 * time_Second\<rparr> else cfg);
          cfg = (if RefreshInterval cfg = 0
                 then cfg\<lparr>RefreshInterval := 30 * time_Minute\<rparr> else cfg);
          cfg = (if Log cfg = None then cfg\<lparr>Log := log_Root\<rparr> else cfg);
          cfg = (if ValidSchemes cfg = None
                 then cfg\<lparr>ValidSchemes := enode_ValidSchemes\<rparr> else cfg);
          cfg = (if Clock cfg = None then cfg\<lparr>Clock := Some mclock_System\<rparr> else cfg)
      in cfg)"

section \<open>The mock transaction pool of package eth\<close>

text \<open>
  \<open>txpool.Transaction\<close> wraps a pointer to a \<open>types.Transaction\<close>; the type of
  transactions is the parameter \<open>'tx\<close> and the type of their hashes \<open>'h\<close>.
\<close>

record 'tx txpool_Transaction =
  Tx :: "'tx ptr"

text \<open>
  The pool: the hash map of collected transactions, and the notification feed, kept as
  the list of the events sent on it (each event carries the batch of one \<open>Add\<close>). The
  lock is left out: the model is sequential.
\<close>

record ('h, 'tx) testTxPool =
  pool :: "'h \<rightharpoonup> 'tx ptr"
  txFeed :: "'tx ptr list list"

datatype panic = NilPointerDereference

definition newTestTxPool :: "('h, 'tx) testTxPool" where
  "newTestTxPool = \<lparr>pool = Map.empty, txFeed = []\<rparr>"

text \<open>
  Reading a Go map at a missing key gives the zero value, here the nil pointer, so a
  missing key and a key bound to nil are the same to \<open>Has\<close> and \<open>Get\<close>.
\<close>

definition Has :: "('h, 'tx) testTxPool \<Rightarrow> 'h \<Rightarrow> bool" where
  "Has p hash = (case pool p hash of Some (Some tx) \<Rightarrow> True | _ \<Rightarrow> False)"

text \<open>\<open>&txpool.Transaction{Tx: tx}\<close>: a fresh wrapper around a transaction.\<close>

definition wrap :: "'tx \<Rightarrow> 'tx txpool_Transaction ptr" where
  "wrap tx = Some \<lparr>Tx = Some tx\<rparr>"

definition Get :: "('h, 'tx) testTxPool \<Rightarrow> 'h \<Rightarrow> 'tx txpool_Transaction ptr" where
  "Get p hash = (case pool p hash of Some (Some tx) \<Rightarrow> wrap tx | _ \<Rightarrow> None)"

text \<open>
  The first loop of \<open>Add\<close>: \<open>unwrapped[i] = tx.Tx\<close> reads a field through each element
  of the batch, which panics on a nil element.
\<close>

fun unwrap :: "'tx txpool_Transaction ptr list \<Rightarrow> panic + 'tx ptr list" where
  "unwrap [] = Inr []"
| "unwrap (None # txs) = Inl NilPointerDereference"
| "unwrap (Some tx # txs) =
     (case unwrap txs of Inl e \<Rightarrow> Inl e | Inr us \<Rightarrow> Inr (Tx tx # us))"

text \<open>
  The second loop: \<open>p.pool[tx.Hash()] = tx\<close> for each unwrapped pointer in order.
  \<open>Hash\<close> is the method of \<open>types.Transaction\<close>, a parameter here; it reads the
  transaction, so calling it through a nil pointer panics.
\<close>

fun collect :: "('tx \<Rightarrow> 'h) \<Rightarrow> ('h \<rightharpoonup> 'tx ptr) \<Rightarrow> 'tx ptr list \<Rightarrow> panic + ('h \<rightharpoonup> 'tx ptr)" where
  "collect Hash m [] = Inr m"
| "collect Hash m (None # us) = Inl NilPointerDereference"
| "collect Hash m (Some tx # us) = collect Hash (m(Hash tx \<mapsto> Some tx)) us"

text \<open>
  \<open>Add\<close> returns the updated pool and \<open>make([]error, len(unwrapped))\<close>, a slice of nil
  errors (\<open>'e\<close> is the type of error values). The flags \<open>local\<close> and \<open>sync\<close> are not read.
\<close>

definition Add ::
  "('tx \<Rightarrow> 'h) \<Rightarrow> ('h, 'tx) testTxPool \<Rightarrow> 'tx txpool_Transaction ptr list \<Rightarrow> bool \<Rightarrow> bool \<Rightarrow>
   panic + (('h, 'tx) testTxPool \<times> 'e ptr list)" where
  "Add Hash p txs local sync =
     (case unwrap txs of
        Inl e \<Rightarrow> Inl e
      | Inr unwrapped \<Rightarrow>
          (case collect Hash (pool p) unwrapped of
             Inl e \<Rightarrow> Inl e
           | Inr m \<Rightarrow>
               Inr (p\<lparr>pool := m, txFeed := txFeed p @ [unwrapped]\<rparr>,
                    replicate (length unwrapped) None)))"

section \<open>trie/database\_test.go\<close>

text \<open>
  The two backends are built by \<open>hashdb.New\<close> and \<open>pathdb.New\<close>, which are not part of
  the sources at hand: a backend is recorded as the constructor call that made it, with
  its arguments. \<open>mptResolver{}\<close> and \<open>pathdb.Config{}\<close> are the zero values of their
  struct types.
\<close>

datatype mptResolver = mptResolver

datatype pathdb_Config = pathdb_Config

datatype 'd backend =
    hashdb_New 'd nat mptResolver
  | pathdb_New 'd "pathdb_Config ptr"

text \<open>
  The fields of \<open>Database\<close> that the test constructor touches: the store and the backend
  (an interface value, nil until one is installed).
\<close>

record 'd Database =
  diskdb :: 'd
  backend :: "'d backend ptr"

text \<open>
  \<open>newTestDatabase\<close>. The helper \<open>prepare\<close> and the constant \<open>rawdb.HashScheme\<close> are
  declared elsewhere and are parameters; \<open>prepare\<close> is called with a nil configuration.
\<close>

definition newTestDatabase ::
  "('d \<Rightarrow> 'c ptr \<Rightarrow> 'd Database) \<Rightarrow> string \<Rightarrow> 'd \<Rightarrow> string \<Rightarrow> 'd Database" where
  "newTestDatabase prepare rawdb_HashScheme diskdb' scheme =
     (let db = prepare diskdb' None in
      if scheme = rawdb_HashScheme
      then db\<lparr>backend := Some (hashdb_New diskdb' 0 mptResolver)\<rparr>
      else db\<lparr>backend := Some (pathdb_New diskdb' (Some pathdb_Config))\<rparr>)"

text \<open>
  \<open>prepare\<close> is declared elsewhere in package trie and is not at hand. To evaluate
  \<open>newTestDatabase\<close> on concrete stores the least such helper stands in for it: a
  \<open>Database\<close> around the store, with no backend yet.
\<close>

definition prepare_bare :: "'d \<Rightarrow> unit ptr \<Rightarrow> 'd Database" where
  "prepare_bare diskdb' config = \<lparr>diskdb = diskdb', backend = None\<rparr>"

text \<open>
  Modelled from the spec: opening a Database as sections 4.5 and 6 of the specification
  word it, to be compared with \<open>newTestDatabase\<close>; the constructor of the facade itself
  is not among the sources. The store declares its scheme in a reserved key read at open time
  (\<open>marker\<close> is the value read), the caller asks for \<open>scheme\<close>; a mismatch of the two
  fails with a scheme-mismatch error, and otherwise the marker alone selects the backend.
\<close>

datatype open_error = SchemeMismatch

definition open_by_marker :: "string \<Rightarrow> string \<Rightarrow> 'd \<Rightarrow> string \<Rightarrow> open_error + 'd backend" where
  "open_by_marker rawdb_HashScheme marker diskdb' scheme =
     (if scheme \<noteq> marker then Inl SchemeMismatch
      else if marker = rawdb_HashScheme then Inr (hashdb_New diskdb' 0 mptResolver)
      else Inr (pathdb_New diskdb' (Some pathdb_Config)))"

text \<open>
  Which of the two schemes a backend belongs to, read from the constructor that made it,
  and the scheme of the backend a Database has installed (none while the field is nil).
\<close>

datatype state_scheme = HashScheme | PathScheme

fun scheme_of :: "'d backend \<Rightarrow> state_scheme" where
  "scheme_of (hashdb_New d n r) = HashScheme"
| "scheme_of (pathdb_New d c) = PathScheme"

definition installed_scheme :: "'d Database \<Rightarrow> state_scheme option" where
  "installed_scheme db = map_option scheme_of (backend db)"

text \<open>
  Modelled from the spec: the operations of the Database Facade that make up the life of
  an instance after its construction, as section 4.5 lists them: \<open>resolve(ref, [version])\<close>,
  \<open>stage(ref, bytes)\<close>, \<open>commit(version_id)\<close>, \<open>cap(target_depth)\<close> and \<open>close()\<close>. No
  method of \<open>Database\<close> is among the sources.
\<close>

datatype ('r, 'b, 'v) facade_op =
  Resolve 'r "'v option" | Stage 'r 'b | Commit 'v | Cap nat | Close

text \<open>
  Modelled from the spec: how the facade carries out an operation. The backend is "a sum
  type / interface with exactly two variants sharing the Database Facade contract", and
  "each variant owns its private state", "with no shared mutable base" (section 9): the
  operation goes to the installed backend, which works on the store it was built on.
  What the hash-scheme and the path-scheme backend do to that store is not among the
  sources; \<open>hash_do\<close> and \<open>path_do\<close> are parameters.
\<close>

fun backend_apply ::
  "(('r, 'b, 'v) facade_op \<Rightarrow> 'd \<Rightarrow> 'd) \<Rightarrow> (('r, 'b, 'v) facade_op \<Rightarrow> 'd \<Rightarrow> 'd) \<Rightarrow>
   ('r, 'b, 'v) facade_op \<Rightarrow> 'd backend \<Rightarrow> 'd backend" where
  "backend_apply hash_do path_do op (hashdb_New d n r) = hashdb_New (hash_do op d) n r"
| "backend_apply hash_do path_do op (pathdb_New d c) = pathdb_New (path_do op d) c"

text \<open>
  Modelled from the spec: one operation on a Database (section 4.5, "single entry point
  used by the trie layer"): it is passed to the installed backend, if there is one.
\<close>

definition facade_apply ::
  "(('r, 'b, 'v) facade_op \<Rightarrow> 'd \<Rightarrow> 'd) \<Rightarrow> (('r, 'b, 'v) facade_op \<Rightarrow> 'd \<Rightarrow> 'd) \<Rightarrow>
   ('r, 'b, 'v) facade_op \<Rightarrow> 'd Database \<Rightarrow> 'd Database" where
  "facade_apply hash_do path_do op db =
     db\<lparr>backend := map_option (backend_apply hash_do path_do op) (backend db)\<rparr>"

section \<open>The path-scheme backend, as the specification describes it\<close>

text \<open>
  The layered diff store (package pathdb) is not among the sources: they hold only
  the call \<open>pathdb.New\<close> in \<open>newTestDatabase\<close>. The definitions of this section follow
  sections 3 and 4.3 of the specification. A reference \<open>'r\<close> is an (owner, path) pair, a
  version \<open>'v\<close> a state root with its sequence number, \<open>'b\<close> the opaque node bytes.
\<close>

text \<open>
  Modelled from the spec: the value a diff layer holds for a reference, "NodeBytes |
  tombstone" (section 3, DiffLayer).
\<close>

datatype 'b change = Bytes 'b | Tombstone

text \<open>
  Modelled from the spec: a DiffLayer, "the full set of (reference -> NodeBytes |
  tombstone) changes introduced by one committed version", with the version it belongs
  to. The parent link is the layer's position in the chain.
\<close>

record ('v, 'r, 'b) DiffLayer =
  version :: 'v
  changes :: "'r \<rightharpoonup> 'b change"

text \<open>
  Modelled from the spec: the state of the path-scheme backend, "a linked chain of
  immutable diff layers", "newest to oldest" (the head of the list is the newest layer,
  the parent of a layer is the next one), "overlaying a persisted disk snapshot".
\<close>

record ('v, 'r, 'b) pathdb =
  chain :: "('v, 'r, 'b) DiffLayer list"
  snapshot :: "'r \<rightharpoonup> 'b"

text \<open>Modelled from the spec: the two results of section 7 that the backend signals.\<close>

datatype db_error = NotFound | Unwindable

text \<open>
  Modelled from the spec: the walk of \<open>resolve\<close> (section 4.3), "toward the root; return
  the first hit; a tombstone entry short-circuits with NotFound; if the walk reaches the
  Disk Snapshot without a hit, query it directly".
\<close>

fun walk :: "('v, 'r, 'b) DiffLayer list \<Rightarrow> ('r \<rightharpoonup> 'b) \<Rightarrow> 'r \<Rightarrow> db_error + 'b" where
  "walk [] snap ref = (case snap ref of Some b \<Rightarrow> Inr b | None \<Rightarrow> Inl NotFound)"
| "walk (l # ls) snap ref =
     (case changes l ref of
        Some (Bytes b) \<Rightarrow> Inr b
      | Some Tombstone \<Rightarrow> Inl NotFound
      | None \<Rightarrow> walk ls snap ref)"

text \<open>
  Modelled from the spec: \<open>resolve(owner, path, at_version)\<close> (section 4.3), "walk the
  chain starting at at_version's layer". The specification gives no result for a version
  that has no layer in the chain; NotFound "may indicate a pruned/unavailable historical
  version" (section 7) and is what the model returns then.
\<close>

definition resolve :: "('v, 'r, 'b) pathdb \<Rightarrow> 'r \<Rightarrow> 'v \<Rightarrow> db_error + 'b" where
  "resolve db ref at_version =
     (case dropWhile (\<lambda>l. version l \<noteq> at_version) (chain db) of
        [] \<Rightarrow> Inl NotFound
      | ls \<Rightarrow> walk ls (snapshot db) ref)"

text \<open>
  Modelled from the spec: \<open>commit(new_layer) -> new_version_id\<close> (section 4.3), "append
  new_layer as the new head; no mutation of existing layers".
\<close>

definition commit ::
  "('v, 'r, 'b) pathdb \<Rightarrow> ('v, 'r, 'b) DiffLayer \<Rightarrow> ('v, 'r, 'b) pathdb \<times> 'v" where
  "commit db new_layer = (db\<lparr>chain := new_layer # chain db\<rparr>, version new_layer)"

text \<open>
  Modelled from the spec: \<open>rollback(to_version)\<close> (section 4.3), "discard all layers
  newer than to_version's layer; fails if to_version is not found in the current chain",
  signalling Unwindable. The result is the state after the call and the error, if any.
\<close>

definition rollback ::
  "('v, 'r, 'b) pathdb \<Rightarrow> 'v \<Rightarrow> ('v, 'r, 'b) pathdb \<times> db_error option" where
  "rollback db to_version =
     (if to_version \<in> set (map version (chain db))
      then (db\<lparr>chain := dropWhile (\<lambda>l. version l \<noteq> to_version) (chain db)\<rparr>, None)
      else (db, Some Unwindable))"

section \<open>The generated getters are nil-safe\<close>

lemmas getter_defs =
  EthereumGetPublicKey_GetAddressN_def EthereumGetPublicKey_GetShowDisplay_def
  EthereumPublicKey_GetNode_def EthereumPublicKey_GetXpub_def
  EthereumGetAddress_GetAddressN_def EthereumGetAddress_GetShowDisplay_def
  EthereumAddress_GetAddressBin_def EthereumAddress_GetAddressHex_def
  EthereumSignTx_GetAddressN_def EthereumSignTx_GetNonce_def EthereumSignTx_GetGasPrice_def
  EthereumSignTx_GetGasLimit_def EthereumSignTx_GetToBin_def EthereumSignTx_GetToHex_def
  EthereumSignTx_GetValue_def EthereumSignTx_GetDataInitialChunk_def
  EthereumSignTx_GetDataLength_def EthereumSignTx_GetChainId_def
  EthereumSignTx_GetTxType_def EthereumTxRequest_GetDataLength_def
  EthereumTxRequest_GetSignatureV_def EthereumTxRequest_GetSignatureR_def
  EthereumTxRequest_GetSignatureS_def EthereumTxAck_GetDataChunk_def
  EthereumSignMessage_GetAddressN_def EthereumSignMessage_GetMessage_def
  EthereumMessageSignature_GetAddressBin_def EthereumMessageSignature_GetSignature_def
  EthereumMessageSignature_GetAddressHex_def EthereumVerifyMessage_GetAddressBin_def
  EthereumVerifyMessage_GetSignature_def EthereumVerifyMessage_GetMessage_def
  EthereumVerifyMessage_GetAddressHex_def

lemma EthereumGetPublicKey_getters:
  "EthereumGetPublicKey_GetAddressN None = None"
  "EthereumGetPublicKey_GetAddressN (Some m) = EthereumGetPublicKey.AddressN m"
  "EthereumGetPublicKey_GetShowDisplay None = False"
  "EthereumGetPublicKey_GetShowDisplay (Some (m\<lparr>EthereumGetPublicKey.ShowDisplay := None\<rparr>)) = False"
  "EthereumGetPublicKey_GetShowDisplay (Some (m\<lparr>EthereumGetPublicKey.ShowDisplay := Some b\<rparr>)) = b"
  by (simp_all add: getter_defs)

lemma EthereumPublicKey_getters:
  "EthereumPublicKey_GetNode None = None"
  "EthereumPublicKey_GetNode (Some m) = EthereumPublicKey.Node m"
  "EthereumPublicKey_GetXpub None = ''''"
  "EthereumPublicKey_GetXpub (Some (m\<lparr>EthereumPublicKey.Xpub := None\<rparr>)) = ''''"
  "EthereumPublicKey_GetXpub (Some (m\<lparr>EthereumPublicKey.Xpub := Some s\<rparr>)) = s"
  by (simp_all add: getter_defs)

lemma EthereumGetAddress_getters:
  "EthereumGetAddress_GetAddressN None = None"
  "EthereumGetAddress_GetAddressN (Some m) = EthereumGetAddress.AddressN m"
  "EthereumGetAddress_GetShowDisplay None = False"
  "EthereumGetAddress_GetShowDisplay (Some (m\<lparr>EthereumGetAddress.ShowDisplay := None\<rparr>)) = False"
  "EthereumGetAddress_GetShowDisplay (Some (m\<lparr>EthereumGetAddress.ShowDisplay := Some b\<rparr>)) = b"
  by (simp_all add: getter_defs)

lemma EthereumAddress_getters:
  "EthereumAddress_GetAddressBin None = None"
  "EthereumAddress_GetAddressBin (Some m) = EthereumAddress.AddressBin m"
  "EthereumAddress_GetAddressHex None = ''''"
  "EthereumAddress_GetAddressHex (Some (m\<lparr>EthereumAddress.AddressHex := None\<rparr>)) = ''''"
  "EthereumAddress_GetAddressHex (Some (m\<lparr>EthereumAddress.AddressHex := Some s\<rparr>)) = s"
  by (simp_all add: getter_defs)

lemma EthereumSignTx_getters:
  "EthereumSignTx_GetAddressN None = None"
  "EthereumSignTx_GetAddressN (Some m) = EthereumSignTx.AddressN m"
  "EthereumSignTx_GetNonce None = None"
  "EthereumSignTx_GetNonce (Some m) = EthereumSignTx.Nonce m"
  "EthereumSignTx_GetGasPrice None = None"
  "EthereumSignTx_GetGasPrice (Some m) = EthereumSignTx.GasPrice m"
  "EthereumSignTx_GetGasLimit None = None"
  "EthereumSignTx_GetGasLimit (Some m) = EthereumSignTx.GasLimit m"
  "EthereumSignTx_GetToBin None = None"
  "EthereumSignTx_GetToBin (Some m) = EthereumSignTx.ToBin m"
  "EthereumSignTx_GetToHex None = ''''"
  "EthereumSignTx_GetToHex (Some (m\<lparr>EthereumSignTx.ToHex := None\<rparr>)) = ''''"
  "EthereumSignTx_GetToHex (Some (m\<lparr>EthereumSignTx.ToHex := Some s\<rparr>)) = s"
  "EthereumSignTx_GetValue None = None"
  "EthereumSignTx_GetValue (Some m) = EthereumSignTx.Value m"
  "EthereumSignTx_GetDataInitialChunk None = None"
  "EthereumSignTx_GetDataInitialChunk (Some m) = EthereumSignTx.DataInitialChunk m"
  "EthereumSignTx_GetDataLength None = 0"
  "EthereumSignTx_GetDataLength (Some (m\<lparr>EthereumSignTx.DataLength := None\<rparr>)) = 0"
  "EthereumSignTx_GetDataLength (Some (m\<lparr>EthereumSignTx.DataLength := Some n\<rparr>)) = n"
  "EthereumSignTx_GetChainId None = 0"
  "EthereumSignTx_GetChainId (Some (m\<lparr>EthereumSignTx.ChainId := None\<rparr>)) = 0"
  "EthereumSignTx_GetChainId (Some (m\<lparr>EthereumSignTx.ChainId := Some n\<rparr>)) = n"
  "EthereumSignTx_GetTxType None = 0"
  "EthereumSignTx_GetTxType (Some (m\<lparr>EthereumSignTx.TxType := None\<rparr>)) = 0"
  "EthereumSignTx_GetTxType (Some (m\<lparr>EthereumSignTx.TxType := Some n\<rparr>)) = n"
  by (simp_all add: getter_defs)

lemma EthereumTxRequest_getters:
  "EthereumTxRequest_GetDataLength None = 0"
  "EthereumTxRequest_GetDataLength (Some (m\<lparr>EthereumTxRequest.DataLength := None\<rparr>)) = 0"
  "EthereumTxRequest_GetDataLength (Some (m\<lparr>EthereumTxRequest.DataLength := Some n\<rparr>)) = n"
  "EthereumTxRequest_GetSignatureV None = 0"
  "EthereumTxRequest_GetSignatureV (Some (m\<lparr>EthereumTxRequest.SignatureV := None\<rparr>)) = 0"
  "EthereumTxRequest_GetSignatureV (Some (m\<lparr>EthereumTxRequest.SignatureV := Some n\<rparr>)) = n"
  "EthereumTxRequest_GetSignatureR None = None"
  "EthereumTxRequest_GetSignatureR (Some m) = EthereumTxRequest.SignatureR m"
  "EthereumTxRequest_GetSignatureS None = None"
  "EthereumTxRequest_GetSignatureS (Some m) = EthereumTxRequest.SignatureS m"
  by (simp_all add: getter_defs)

lemma EthereumTxAck_getters:
  "EthereumTxAck_GetDataChunk None = None"
  "EthereumTxAck_GetDataChunk (Some m) = EthereumTxAck.DataChunk m"
  by (simp_all add: getter_defs)

lemma EthereumSignMessage_getters:
  "EthereumSignMessage_GetAddressN None = None"
  "EthereumSignMessage_GetAddressN (Some m) = EthereumSignMessage.AddressN m"
  "EthereumSignMessage_GetMessage None = None"
  "EthereumSignMessage_GetMessage (Some m) = EthereumSignMessage.Message m"
  by (simp_all add: getter_defs)

lemma EthereumMessageSignature_getters:
  "EthereumMessageSignature_GetAddressBin None = None"
  "EthereumMessageSignature_GetAddressBin (Some m) = EthereumMessageSignature.AddressBin m"
  "EthereumMessageSignature_GetSignature None = None"
  "EthereumMessageSignature_GetSignature (Some m) = EthereumMessageSignature.Signature m"
  "EthereumMessageSignature_GetAddressHex None = ''''"
  "EthereumMessageSignature_GetAddressHex (Some (m\<lparr>EthereumMessageSignature.AddressHex := None\<rparr>)) = ''''"
  "EthereumMessageSignature_GetAddressHex (Some (m\<lparr>EthereumMessageSignature.AddressHex := Some s\<rparr>)) = s"
  by (simp_all add: getter_defs)

lemma EthereumVerifyMessage_getters:
  "EthereumVerifyMessage_GetAddressBin None = None"
  "EthereumVerifyMessage_GetAddressBin (Some m) = EthereumVerifyMessage.AddressBin m"
  "EthereumVerifyMessage_GetSignature None = None"
  "EthereumVerifyMessage_GetSignature (Some m) = EthereumVerifyMessage.Signature m"
  "EthereumVerifyMessage_GetMessage None = None"
  "EthereumVerifyMessage_GetMessage (Some m) = EthereumVerifyMessage.Message m"
  "EthereumVerifyMessage_GetAddressHex None = ''''"
  "EthereumVerifyMessage_GetAddressHex (Some (m\<lparr>EthereumVerifyMessage.AddressHex := None\<rparr>)) = ''''"
  "EthereumVerifyMessage_GetAddressHex (Some (m\<lparr>EthereumVerifyMessage.AddressHex := Some s\<rparr>)) = s"
  by (simp_all add: getter_defs)

text \<open>
  Claim C10. Every generated getter of the ten Trezor message types is total and nil-safe.
  Called on a nil receiver it returns the zero value of its result type: the nil slice or
  nil message pointer, \<open>false\<close>, the empty string, or \<open>0\<close>. On a receiver that is not
  nil, a getter of a slice or message field returns the field as it is (so nil when the
  field is nil), and a getter of an optional scalar returns the zero value when the field
  pointer is nil and the value pointed to otherwise. No case dereferences a nil pointer.
\<close>

theorem generated_getters_nil_safe:
  "EthereumGetPublicKey_GetAddressN None = None
   \<and> EthereumGetPublicKey_GetAddressN (Some gpk) = EthereumGetPublicKey.AddressN gpk
   \<and> EthereumGetPublicKey_GetShowDisplay None = False
   \<and> EthereumGetPublicKey_GetShowDisplay (Some (gpk\<lparr>EthereumGetPublicKey.ShowDisplay := None\<rparr>)) = False
   \<and> EthereumGetPublicKey_GetShowDisplay (Some (gpk\<lparr>EthereumGetPublicKey.ShowDisplay := Some b\<rparr>)) = b
   \<and> EthereumPublicKey_GetNode None = None
   \<and> EthereumPublicKey_GetNode (Some pk) = EthereumPublicKey.Node pk
   \<and> EthereumPublicKey_GetXpub None = ''''
   \<and> EthereumPublicKey_GetXpub (Some (pk\<lparr>EthereumPublicKey.Xpub := None\<rparr>)) = ''''
   \<and> EthereumPublicKey_GetXpub (Some (pk\<lparr>EthereumPublicKey.Xpub := Some s\<rparr>)) = s
   \<and> EthereumGetAddress_GetAddressN None = None
   \<and> EthereumGetAddress_GetAddressN (Some ga) = EthereumGetAddress.AddressN ga
   \<and> EthereumGetAddress_GetShowDisplay None = False
   \<and> EthereumGetAddress_GetShowDisplay (Some (ga\<lparr>EthereumGetAddress.ShowDisplay := None\<rparr>)) = False
   \<and> EthereumGetAddress_GetShowDisplay (Some (ga\<lparr>EthereumGetAddress.ShowDisplay := Some b\<rparr>)) = b
   \<and> EthereumAddress_GetAddressBin None = None
   \<and> EthereumAddress_GetAddressBin (Some a) = EthereumAddress.AddressBin a
   \<and> EthereumAddress_GetAddressHex None = ''''
   \<and> EthereumAddress_GetAddressHex (Some (a\<lparr>EthereumAddress.AddressHex := None\<rparr>)) = ''''
   \<and> EthereumAddress_GetAddressHex (Some (a\<lparr>EthereumAddress.AddressHex := Some s\<rparr>)) = s
   \<and> EthereumSignTx_GetAddressN None = None
   \<and> EthereumSignTx_GetAddressN (Some stx) = EthereumSignTx.AddressN stx
   \<and> EthereumSignTx_GetNonce None = None
   \<and> EthereumSignTx_GetNonce (Some stx) = EthereumSignTx.Nonce stx
   \<and> EthereumSignTx_GetGasPrice None = None
   \<and> EthereumSignTx_GetGasPrice (Some stx) = EthereumSignTx.GasPrice stx
   \<and> EthereumSignTx_GetGasLimit None = None
   \<and> EthereumSignTx_GetGasLimit (Some stx) = EthereumSignTx.GasLimit stx
   \<and> EthereumSignTx_GetToBin None = None
   \<and> EthereumSignTx_GetToBin (Some stx) = EthereumSignTx.ToBin stx
   \<and> EthereumSignTx_GetToHex None = ''''
   \<and> EthereumSignTx_GetToHex (Some (stx\<lparr>EthereumSignTx.ToHex := None\<rparr>)) = ''''
   \<and> EthereumSignTx_GetToHex (Some (stx\<lparr>EthereumSignTx.ToHex := Some s\<rparr>)) = s
   \<and> EthereumSignTx_GetValue None = None
   \<and> EthereumSignTx_GetValue (Some stx) = EthereumSignTx.Value stx
   \<and> EthereumSignTx_GetDataInitialChunk None = None
   \<and> EthereumSignTx_GetDataInitialChunk (Some stx) = EthereumSignTx.DataInitialChunk stx
   \<and> EthereumSignTx_GetDataLength None = 0
   \<and> EthereumSignTx_GetDataLength (Some (stx\<lparr>EthereumSignTx.DataLength := None\<rparr>)) = 0
   \<and> EthereumSignTx_GetDataLength (Some (stx\<lparr>EthereumSignTx.DataLength := Some n\<rparr>)) = n
   \<and> EthereumSignTx_GetChainId None = 0
   \<and> EthereumSignTx_GetChainId (Some (stx\<lparr>EthereumSignTx.ChainId := None\<rparr>)) = 0
   \<and> EthereumSignTx_GetChainId (Some (stx\<lparr>EthereumSignTx.ChainId := Some n\<rparr>)) = n
   \<and> EthereumSignTx_GetTxType None = 0
   \<and> EthereumSignTx_GetTxType (Some (stx\<lparr>EthereumSignTx.TxType := None\<rparr>)) = 0
   \<and> EthereumSignTx_GetTxType (Some (stx\<lparr>EthereumSignTx.TxType := Some n\<rparr>)) = n
   \<and> EthereumTxRequest_GetDataLength None = 0
   \<and> EthereumTxRequest_GetDataLength (Some (req\<lparr>EthereumTxRequest.DataLength := None\<rparr>)) = 0
   \<and> EthereumTxRequest_GetDataLength (Some (req\<lparr>EthereumTxRequest.DataLength := Some n\<rparr>)) = n
   \<and> EthereumTxRequest_GetSignatureV None = 0
   \<and> EthereumTxRequest_GetSignatureV (Some (req\<lparr>EthereumTxRequest.SignatureV := None\<rparr>)) = 0
   \<and> EthereumTxRequest_GetSignatureV (Some (req\<lparr>EthereumTxRequest.SignatureV := Some n\<rparr>)) = n
   \<and> EthereumTxRequest_GetSignatureR None = None
   \<and> EthereumTxRequest_GetSignatureR (Some req) = EthereumTxRequest.SignatureR req
   \<and> EthereumTxRequest_GetSignatureS None = None
   \<and> EthereumTxRequest_GetSignatureS (Some req) = EthereumTxRequest.SignatureS req
   \<and> EthereumTxAck_GetDataChunk None = None
   \<and> EthereumTxAck_GetDataChunk (Some ack) = EthereumTxAck.DataChunk ack
   \<and> EthereumSignMessage_GetAddressN None = None
   \<and> EthereumSignMessage_GetAddressN (Some sm) = EthereumSignMessage.AddressN sm
   \<and> EthereumSignMessage_GetMessage None = None
   \<and> EthereumSignMessage_GetMessage (Some sm) = EthereumSignMessage.Message sm
   \<and> EthereumMessageSignature_GetAddressBin None = None
   \<and> EthereumMessageSignature_GetAddressBin (Some ms) = EthereumMessageSignature.AddressBin ms
   \<and> EthereumMessageSignature_GetSignature None = None
   \<and> EthereumMessageSignature_GetSignature (Some ms) = EthereumMessageSignature.Signature ms
   \<and> EthereumMessageSignature_GetAddressHex None = ''''
   \<and> EthereumMessageSignature_GetAddressHex (Some (ms\<lparr>EthereumMessageSignature.AddressHex := None\<rparr>)) = ''''
   \<and> EthereumMessageSignature_GetAddressHex (Some (ms\<lparr>EthereumMessageSignature.AddressHex := Some s\<rparr>)) = s
   \<and> EthereumVerifyMessage_GetAddressBin None = None
   \<and> EthereumVerifyMessage_GetAddressBin (Some vm) = EthereumVerifyMessage.AddressBin vm
   \<and> EthereumVerifyMessage_GetSignature None = None
   \<and> EthereumVerifyMessage_GetSignature (Some vm) = EthereumVerifyMessage.Signature vm
   \<and> EthereumVerifyMessage_GetMessage None = None
   \<and> EthereumVerifyMessage_GetMessage (Some vm) = EthereumVerifyMessage.Message vm
   \<and> EthereumVerifyMessage_GetAddressHex None = ''''
   \<and> EthereumVerifyMessage_GetAddressHex (Some (vm\<lparr>EthereumVerifyMessage.AddressHex := None\<rparr>)) = ''''
   \<and> EthereumVerifyMessage_GetAddressHex (Some (vm\<lparr>EthereumVerifyMessage.AddressHex := Some s\<rparr>)) = s"
  by (simp only: EthereumGetPublicKey_getters EthereumPublicKey_getters EthereumGetAddress_getters EthereumAddress_getters EthereumSignTx_getters EthereumTxRequest_getters EthereumTxAck_getters EthereumSignMessage_getters EthereumMessageSignature_getters EthereumVerifyMessage_getters simp_thms)

section \<open>Default-filling of the discovery configuration\<close>

text \<open>The two numeric defaults, read as signed 64-bit values: neither wraps around.\<close>

lemma ten_seconds: "sint (10 * time_Second) = 10000000000"
  by (simp add: time_Second_def)

lemma thirty_minutes: "sint (30 * time_Minute) = 1800000000000"
  by (simp add: time_Minute_def time_Second_def)

lemma ten_seconds_nonzero: "10 * time_Second \<noteq> 0"
  by (simp add: time_Second_def)

lemma thirty_minutes_nonzero: "30 * time_Minute \<noteq> 0"
  by (simp add: time_Minute_def time_Second_def)

text \<open>One lemma for each field of the result.\<close>

lemma withDefaults_PrivateKey:
  "PrivateKey (withDefaults lr vs sys cfg) = PrivateKey cfg"
  by (simp add: withDefaults_def Let_def)

lemma withDefaults_NetRestrict:
  "NetRestrict (withDefaults lr vs sys cfg) = NetRestrict cfg"
  by (simp add: withDefaults_def Let_def)

lemma withDefaults_Unhandled:
  "Unhandled (withDefaults lr vs sys cfg) = Unhandled cfg"
  by (simp add: withDefaults_def Let_def)

lemma withDefaults_Bootnodes:
  "Bootnodes (withDefaults lr vs sys cfg) = Bootnodes cfg"
  by (simp add: withDefaults_def Let_def)

lemma withDefaults_V5ProtocolID:
  "V5ProtocolID (withDefaults lr vs sys cfg) = V5ProtocolID cfg"
  by (simp add: withDefaults_def Let_def)

lemma withDefaults_PingInterval:
  "PingInterval (withDefaults lr vs sys cfg) =
     (if PingInterval cfg = 0 then 10 * time_Second else PingInterval cfg)"
  by (simp add: withDefaults_def Let_def)

lemma withDefaults_RefreshInterval:
  "RefreshInterval (withDefaults lr vs sys cfg) =
     (if RefreshInterval cfg = 0 then 30 * time_Minute else RefreshInterval cfg)"
  by (simp add: withDefaults_def Let_def)

lemma withDefaults_Log:
  "Log (withDefaults lr vs sys cfg) = (if Log cfg = None then lr else Log cfg)"
  by (auto simp: withDefaults_def Let_def)

lemma withDefaults_ValidSchemes:
  "ValidSchemes (withDefaults lr vs sys cfg) =
     (if ValidSchemes cfg = None then vs else ValidSchemes cfg)"
  by (auto simp: withDefaults_def Let_def)

lemma withDefaults_Clock:
  "Clock (withDefaults lr vs sys cfg) = (if Clock cfg = None then Some sys else Clock cfg)"
  by (auto simp: withDefaults_def Let_def)

lemmas withDefaults_field =
  withDefaults_PrivateKey withDefaults_NetRestrict withDefaults_Unhandled
  withDefaults_Bootnodes withDefaults_V5ProtocolID withDefaults_PingInterval
  withDefaults_RefreshInterval withDefaults_Log withDefaults_ValidSchemes withDefaults_Clock

text \<open>
  Two configurations are equal when all their fields are, so idempotence follows field by
  field: a field that the first pass filled is either no longer zero, or was filled with
  a default that is itself zero and is filled with the same default again.
\<close>

lemma withDefaults_idem:
  "withDefaults lr vs sys (withDefaults lr vs sys cfg) = withDefaults lr vs sys cfg"
  by (rule Config.equality) (simp_all add: withDefaults_field)

text \<open>
  Claim C9. For every configuration, \<open>withDefaults\<close> leaves the five fields it never
  tests (\<open>PrivateKey\<close>, \<open>NetRestrict\<close>, \<open>Unhandled\<close>, \<open>Bootnodes\<close>, \<open>V5ProtocolID\<close>)
  unchanged; each of \<open>PingInterval\<close>, \<open>RefreshInterval\<close>, \<open>Log\<close>, \<open>ValidSchemes\<close> and
  \<open>Clock\<close> keeps its value when that value is not zero and is set to its fixed default
  (ten seconds, thirty minutes, the root logger, the valid identity schemes, the system
  clock) exactly when it is zero; the two numeric defaults are not themselves zero; and
  filling twice is the same as filling once.
\<close>

theorem withDefaults_fills_zero_fields_only:
  "PrivateKey (withDefaults lr vs sys cfg) = PrivateKey cfg
   \<and> NetRestrict (withDefaults lr vs sys cfg) = NetRestrict cfg
   \<and> Unhandled (withDefaults lr vs sys cfg) = Unhandled cfg
   \<and> Bootnodes (withDefaults lr vs sys cfg) = Bootnodes cfg
   \<and> V5ProtocolID (withDefaults lr vs sys cfg) = V5ProtocolID cfg
   \<and> PingInterval (withDefaults lr vs sys cfg) =
       (if PingInterval cfg = 0 then 10 * time_Second else PingInterval cfg)
   \<and> RefreshInterval (withDefaults lr vs sys cfg) =
       (if RefreshInterval cfg = 0 then 30 * time_Minute else RefreshInterval cfg)
   \<and> Log (withDefaults lr vs sys cfg) = (if Log cfg = None then lr else Log cfg)
   \<and> ValidSchemes (withDefaults lr vs sys cfg) =
       (if ValidSchemes cfg = None then vs else ValidSchemes cfg)
   \<and> Clock (withDefaults lr vs sys cfg) = (if Clock cfg = None then Some sys else Clock cfg)
   \<and> 10 * time_Second \<noteq> 0 \<and> 30 * time_Minute \<noteq> 0
   \<and> withDefaults lr vs sys (withDefaults lr vs sys cfg) = withDefaults lr vs sys cfg"
  by (intro conjI withDefaults_field withDefaults_idem ten_seconds_nonzero
      thirty_minutes_nonzero)

text \<open>
  The theorem at a configuration with \<open>RefreshInterval\<close> and \<open>ValidSchemes\<close> set and
  every other field zero: the two set fields are kept and the three zero ones filled.
\<close>

theorem withDefaults_fills_zero_fields_only_witness:
  "withDefaults (Some ''root'') (Some ''v4'') ''system''
     \<lparr>PrivateKey = None :: unit ptr, NetRestrict = None :: unit ptr,
      Unhandled = None :: unit ptr, Bootnodes = None :: unit ptr slice,
      PingInterval = 0, RefreshInterval = 7, V5ProtocolID = None,
      Log = None, ValidSchemes = Some ''mine'', Clock = None\<rparr>
   = \<lparr>PrivateKey = None, NetRestrict = None, Unhandled = None, Bootnodes = None,
      PingInterval = 10000000000, RefreshInterval = 7, V5ProtocolID = None,
      Log = Some ''root'', ValidSchemes = Some ''mine'', Clock = Some ''system''\<rparr>"
  using withDefaults_fills_zero_fields_only[of "Some ''root''" "Some ''v4''" "''system''"
     "\<lparr>PrivateKey = None :: unit ptr, NetRestrict = None :: unit ptr,
      Unhandled = None :: unit ptr, Bootnodes = None :: unit ptr slice,
      PingInterval = 0, RefreshInterval = 7, V5ProtocolID = None,
      Log = None, ValidSchemes = Some ''mine'', Clock = None\<rparr>"]
  by (intro Config.equality) (simp_all add: time_Second_def)

section \<open>The mock transaction pool accepts and returns what it is given\<close>

lemma unwrap_wrapped: "unwrap (map wrap ts) = Inr (map Some ts)"
  by (induction ts) (simp_all add: wrap_def)

lemma find_snoc:
  "List.find P (xs @ [y]) =
     (case List.find P xs of Some x \<Rightarrow> Some x | None \<Rightarrow> if P y then Some y else None)"
  by (induction xs) simp_all

lemma find_SomeD: "List.find P xs = Some x \<Longrightarrow> P x \<and> x \<in> set xs"
  by (induction xs) (auto split: if_splits)

text \<open>
  The map after the second loop of \<open>Add\<close>: a hash that occurs in the batch is bound to the
  last transaction of the batch with that hash; every other key keeps its binding.
\<close>

lemma collect_Some:
  "collect Hash m (map Some ts) =
     Inr (\<lambda>h. case List.find (\<lambda>t. Hash t = h) (rev ts) of
                 Some t \<Rightarrow> Some (Some t) | None \<Rightarrow> m h)"
proof (induction ts arbitrary: m)
  case Nil
  then show ?case by simp
next
  case (Cons t ts)
  have "(\<lambda>h. case List.find (\<lambda>t. Hash t = h) (rev ts) of
                 Some t \<Rightarrow> Some (Some t) | None \<Rightarrow> (m(Hash t \<mapsto> Some t)) h)
      = (\<lambda>h. case List.find (\<lambda>t. Hash t = h) (rev (t # ts)) of
                 Some t \<Rightarrow> Some (Some t) | None \<Rightarrow> m h)"
    by (rule ext) (simp add: find_snoc split: option.splits)
  then show ?case
    by (simp add: Cons.IH)
qed

lemma find_rev_mem:
  assumes "tx \<in> set ts"
  shows "\<exists>t. List.find (\<lambda>t. Hash t = Hash tx) (rev ts) = Some t \<and> Hash t = Hash tx \<and> t \<in> set ts"
proof -
  from assms have "List.find (\<lambda>t. Hash t = Hash tx) (rev ts) \<noteq> None"
    by (simp add: find_None_iff) blast
  then obtain t where t: "List.find (\<lambda>t. Hash t = Hash tx) (rev ts) = Some t" by blast
  from find_SomeD[OF t] have "Hash t = Hash tx \<and> t \<in> set ts" by simp
  with t show ?thesis by blast
qed

lemma Add_wrapped:
  "Add Hash p (map wrap ts) local sync =
     Inr (p\<lparr>pool := (\<lambda>h. case List.find (\<lambda>t. Hash t = h) (rev ts) of
                              Some t \<Rightarrow> Some (Some t) | None \<Rightarrow> pool p h),
             txFeed := txFeed p @ [map Some ts]\<rparr>,
          replicate (length ts) None)"
  by (simp add: Add_def unwrap_wrapped collect_Some)

lemma Has_iff: "Has p h \<longleftrightarrow> (\<exists>tx. pool p h = Some (Some tx))"
  by (simp add: Has_def split: option.splits)

lemma Get_eq: "pool p h = Some (Some tx) \<Longrightarrow> Get p h = wrap tx"
  by (simp add: Get_def)

text \<open>A nil wrapper, or a wrapper around a nil transaction, makes \<open>Add\<close> panic.\<close>

lemma Add_nil_wrapper: "Add Hash p (None # txs) local sync = Inl NilPointerDereference"
  by (simp add: Add_def)

lemma Add_nil_transaction:
  "Add Hash p [Some \<lparr>Tx = None\<rparr>] local sync = Inl NilPointerDereference"
  by (simp add: Add_def)

text \<open>
  Claim C8. Let the batch be any list of wrappers around transactions \<open>ts\<close>, and the pool
  be in any state. Then \<open>Add\<close> returns, with a slice of nil errors as long as the batch,
  and in the pool it leaves, for every transaction \<open>tx\<close> of the batch, \<open>Has (Hash tx)\<close>
  is true and \<open>Get (Hash tx)\<close> is a non-nil wrapper around a transaction of the batch
  with the hash of \<open>tx\<close>. The wrapper holds \<open>tx\<close> itself when no other transaction of
  the batch has the same hash, which is what a hash that identifies transactions gives;
  \<open>Hash\<close> is a parameter here, so this is a hypothesis on the batch.
\<close>

theorem Add_then_Has_and_Get:
  "\<exists>p'. Add Hash p (map wrap ts) local sync = Inr (p', replicate (length (map wrap ts)) None)
     \<and> (\<forall>tx \<in> set ts.
           Has p' (Hash tx)
         \<and> (\<exists>tx' \<in> set ts. Hash tx' = Hash tx \<and> Get p' (Hash tx) = wrap tx')
         \<and> ((\<forall>t \<in> set ts. Hash t = Hash tx \<longrightarrow> t = tx) \<longrightarrow> Get p' (Hash tx) = wrap tx))"
proof -
  let ?m = "\<lambda>h. case List.find (\<lambda>t. Hash t = h) (rev ts) of
                 Some t \<Rightarrow> Some (Some t) | None \<Rightarrow> pool p h"
  let ?p = "p\<lparr>pool := ?m, txFeed := txFeed p @ [map Some ts]\<rparr>"
  have run: "Add Hash p (map wrap ts) local sync = Inr (?p, replicate (length (map wrap ts)) None)"
    by (simp add: Add_wrapped)
  have each: "Has ?p (Hash tx)
         \<and> (\<exists>tx' \<in> set ts. Hash tx' = Hash tx \<and> Get ?p (Hash tx) = wrap tx')
         \<and> ((\<forall>t \<in> set ts. Hash t = Hash tx \<longrightarrow> t = tx) \<longrightarrow> Get ?p (Hash tx) = wrap tx)"
    if "tx \<in> set ts" for tx
  proof -
    from find_rev_mem[OF that, of Hash] obtain t where
      t: "List.find (\<lambda>t. Hash t = Hash tx) (rev ts) = Some t" "Hash t = Hash tx" "t \<in> set ts"
      by blast
    have stored: "pool ?p (Hash tx) = Some (Some t)"
      by (simp add: t(1))
    have "Has ?p (Hash tx)"
      unfolding Has_iff using stored by blast
    moreover have got: "Get ?p (Hash tx) = wrap t"
      by (rule Get_eq[OF stored])
    moreover have "\<exists>tx' \<in> set ts. Hash tx' = Hash tx \<and> Get ?p (Hash tx) = wrap tx'"
      using t(2,3) got by blast
    moreover have "(\<forall>t \<in> set ts. Hash t = Hash tx \<longrightarrow> t = tx) \<longrightarrow> Get ?p (Hash tx) = wrap tx"
      using t(2,3) got by metis
    ultimately show ?thesis by blast
  qed
  show ?thesis
    by (rule exI[of _ ?p]) (use run each in blast)
qed

text \<open>
  The theorem at the empty pool, the batch of the transactions 1 and 2 and the hash
  \<open>Suc\<close>: both are accepted, and the transaction 2 is found under its hash.
\<close>

theorem Add_then_Has_and_Get_witness:
  "\<exists>p'. Add Suc newTestTxPool (map wrap [1, 2 :: nat]) False False
            = Inr (p', [None :: unit ptr, None])
        \<and> Has p' (Suc 2) \<and> Get p' (Suc 2) = wrap 2"
proof -
  from Add_then_Has_and_Get[where Hash = Suc and p = newTestTxPool and ts = "[1, 2 :: nat]"
      and local = False and sync = False]
  obtain p' :: "(nat, nat) testTxPool" where
    run: "Add Suc newTestTxPool (map wrap [1, 2 :: nat]) False False
            = Inr (p', replicate (length (map wrap [1, 2 :: nat])) (None :: unit ptr))"
    and each: "\<forall>tx \<in> set [1, 2 :: nat].
           Has p' (Suc tx)
         \<and> (\<exists>tx' \<in> set [1, 2]. Suc tx' = Suc tx \<and> Get p' (Suc tx) = wrap tx')
         \<and> ((\<forall>t \<in> set [1, 2]. Suc t = Suc tx \<longrightarrow> t = tx) \<longrightarrow> Get p' (Suc tx) = wrap tx)"
    by blast
  from each have "Has p' (Suc 2) \<and> Get p' (Suc 2) = wrap 2"
    by simp
  moreover from run have "Add Suc newTestTxPool (map wrap [1, 2 :: nat]) False False
            = Inr (p', [None :: unit ptr, None])"
    by (simp add: numeral_2_eq_2)
  ultimately show ?thesis by blast
qed

section \<open>The test constructor selects the backend from its argument\<close>

lemma scheme_of_backend_apply: "scheme_of (backend_apply h p op be) = scheme_of be"
  by (cases be) simp_all

lemma installed_scheme_facade_apply:
  "installed_scheme (facade_apply h p op db) = installed_scheme db"
  by (cases "backend db")
     (simp_all add: installed_scheme_def facade_apply_def scheme_of_backend_apply)

lemma installed_scheme_fold:
  "installed_scheme (fold (facade_apply h p) ops db) = installed_scheme db"
  by (induction ops arbitrary: db) (simp_all add: installed_scheme_facade_apply)

lemma installed_scheme_newTestDatabase:
  "installed_scheme (newTestDatabase prepare hs d scheme) =
     Some (if scheme = hs then HashScheme else PathScheme)"
  by (simp add: installed_scheme_def newTestDatabase_def Let_def)

text \<open>
  Claim C1, as the code has it. At construction by \<open>newTestDatabase\<close> the backend is
  selected solely from the \<open>scheme\<close> argument and is fixed for the life of the instance.
  The backend installed is the one \<open>hashdb.New\<close> builds on the store passed in when the
  argument equals \<open>rawdb.HashScheme\<close>, and the one \<open>pathdb.New\<close> builds on it with an
  empty configuration otherwise; it is a hash-scheme backend exactly when the argument
  equals the marker and a path-scheme backend exactly when it does not. The selection is
  the same for every store and every \<open>prepare\<close>, so what scheme the store declares has
  no part in it and a mismatch between the argument and the store is not checked there.
  Through any sequence of later facade operations the scheme of the installed backend
  stays the one selected at construction.
\<close>

theorem newTestDatabase_selects_by_argument:
  "backend (newTestDatabase prepare rawdb_HashScheme d scheme) =
     Some (if scheme = rawdb_HashScheme then hashdb_New d 0 mptResolver
           else pathdb_New d (Some pathdb_Config))
   \<and> (installed_scheme (newTestDatabase prepare rawdb_HashScheme d scheme) = Some HashScheme
        \<longleftrightarrow> scheme = rawdb_HashScheme)
   \<and> (installed_scheme (newTestDatabase prepare rawdb_HashScheme d scheme) = Some PathScheme
        \<longleftrightarrow> scheme \<noteq> rawdb_HashScheme)
   \<and> installed_scheme (newTestDatabase prepare rawdb_HashScheme d scheme) =
       installed_scheme (newTestDatabase prepare' rawdb_HashScheme d' scheme)
   \<and> installed_scheme
        (fold (facade_apply hash_do path_do) ops
           (newTestDatabase prepare rawdb_HashScheme d scheme)) =
       installed_scheme (newTestDatabase prepare rawdb_HashScheme d scheme)"
proof (intro conjI)
  show "backend (newTestDatabase prepare rawdb_HashScheme d scheme) =
     Some (if scheme = rawdb_HashScheme then hashdb_New d 0 mptResolver
           else pathdb_New d (Some pathdb_Config))"
    by (simp add: newTestDatabase_def Let_def)
  show "installed_scheme (newTestDatabase prepare rawdb_HashScheme d scheme) = Some HashScheme
        \<longleftrightarrow> scheme = rawdb_HashScheme"
    by (simp add: installed_scheme_newTestDatabase)
  show "installed_scheme (newTestDatabase prepare rawdb_HashScheme d scheme) = Some PathScheme
        \<longleftrightarrow> scheme \<noteq> rawdb_HashScheme"
    by (simp add: installed_scheme_newTestDatabase)
  show "installed_scheme (newTestDatabase prepare rawdb_HashScheme d scheme) =
       installed_scheme (newTestDatabase prepare' rawdb_HashScheme d' scheme)"
    by (simp only: installed_scheme_newTestDatabase)
  show "installed_scheme
        (fold (facade_apply hash_do path_do) ops
           (newTestDatabase prepare rawdb_HashScheme d scheme)) =
       installed_scheme (newTestDatabase prepare rawdb_HashScheme d scheme)"
    by (rule installed_scheme_fold)
qed

text \<open>
  The theorem with the marker \<open>hashScheme\<close> and an argument that is no scheme at all:
  the path-scheme backend is installed, and it is still a path-scheme backend after a
  stage, a commit and a close that each write to the store.
\<close>

theorem newTestDatabase_selects_by_argument_witness:
  "backend (newTestDatabase prepare_bare ''hashScheme'' [(''k'', ''v'')] ''bogus'') =
     Some (pathdb_New [(''k'', ''v'')] (Some pathdb_Config))
   \<and> installed_scheme (newTestDatabase prepare_bare ''hashScheme'' [(''k'', ''v'')] ''bogus'') =
       Some PathScheme
   \<and> installed_scheme
        (fold (facade_apply (\<lambda>op d. d) (\<lambda>op d. (''x'', ''y'') # d))
           [Stage (0 :: nat) (1 :: nat), Commit (2 :: nat), Close]
           (newTestDatabase prepare_bare ''hashScheme'' [(''k'', ''v'')] ''bogus'')) =
       Some PathScheme"
  using newTestDatabase_selects_by_argument[where prepare = prepare_bare
      and rawdb_HashScheme = "''hashScheme''" and d = "[(''k'', ''v'')]" and scheme = "''bogus''"
      and hash_do = "\<lambda>op d. d" and path_do = "\<lambda>op d. (''x'', ''y'') # d"
      and ops = "[Stage (0 :: nat) (1 :: nat), Commit (2 :: nat), Close]"
      and prepare' = prepare_bare and d' = "[]"]
  by (simp add: installed_scheme_def newTestDatabase_def prepare_bare_def facade_apply_def)

text \<open>
  Claim C1 as stated fails on \<open>newTestDatabase\<close>. Take \<open>hashScheme\<close> for the hash-scheme
  marker, a store whose scheme entry says \<open>pathScheme\<close>, and ask for \<open>hashScheme\<close>.
  Opening as the specification words it is a scheme mismatch; the test constructor
  selects the hash-scheme backend and has it built on that store.
\<close>

theorem newTestDatabase_ignores_marker:
  "open_by_marker ''hashScheme'' ''pathScheme'' [(''scheme'', ''pathScheme'')] ''hashScheme''
     = Inl SchemeMismatch
   \<and> backend (newTestDatabase prepare_bare ''hashScheme'' [(''scheme'', ''pathScheme'')]
        ''hashScheme'') =
       Some (hashdb_New [(''scheme'', ''pathScheme'')] 0 mptResolver)"
  by (simp add: open_by_marker_def newTestDatabase_def prepare_bare_def)

section \<open>Latest-wins and rollback in the path-scheme backend\<close>

lemma walk_first_hit:
  "\<forall>l' \<in> set pre. changes l' P = None \<Longrightarrow> changes l P = Some c \<Longrightarrow>
   walk (pre @ l # post) snap P = (case c of Bytes b \<Rightarrow> Inr b | Tombstone \<Rightarrow> Inl NotFound)"
  by (induction pre) (simp_all split: change.splits)

lemma dropWhile_to_layer:
  "version l \<notin> version ` set newer \<Longrightarrow>
   dropWhile (\<lambda>l'. version l' \<noteq> version l) (newer @ l # older) = l # older"
  by (induction newer) auto

lemma resolve_at_layer:
  assumes "chain db = newer @ l # older" "version l \<notin> version ` set newer"
  shows "resolve db P (version l) = walk (l # older) (snapshot db) P"
  by (simp add: resolve_def assms dropWhile_to_layer)

lemma commit_twice_chain:
  "chain (fst (commit (fst (commit db L1)) L2)) = L2 # L1 # chain db"
  "snapshot (fst (commit (fst (commit db L1)) L2)) = snapshot db"
  by (simp_all add: commit_def)

lemma resolve_after_commits:
  assumes "version L1 \<noteq> version L2"
    and "changes L1 P = Some (Bytes b1)" and "changes L2 P = Some (Bytes b2)"
  shows "resolve (fst (commit (fst (commit db L1)) L2)) P (version L2) = Inr b2"
    and "resolve (fst (commit (fst (commit db L1)) L2)) P (version L1) = Inr b1"
  using assms by (simp_all add: resolve_def commit_twice_chain)

text \<open>
  Claim C3. Let \<open>L1\<close> and \<open>L2\<close> be two live layers of a chain whose versions are
  pairwise different, \<open>L2\<close> nearer the head than \<open>L1\<close> (committed after it, since a
  commit puts the new layer at the head), both holding bytes for the reference \<open>P\<close>.
  Then resolving \<open>P\<close> at the version of \<open>L2\<close> gives the bytes of \<open>L2\<close>, and at the
  version of \<open>L1\<close> the bytes of \<open>L1\<close>. The same holds right after committing \<open>L1\<close>
  and then \<open>L2\<close>, two layers of different versions, on any state. In general a walk is decided by the first layer
  from its starting point that changes \<open>P\<close>: it gives the bytes of that layer, or
  NotFound when that layer holds a tombstone, whatever the layers behind it and the
  snapshot hold.
\<close>

theorem latest_wins:
  "(chain db = newer @ L2 # mid @ L1 # older \<and> distinct (map version (chain db))
      \<and> changes L1 P = Some (Bytes b1) \<and> changes L2 P = Some (Bytes b2)
    \<longrightarrow> resolve db P (version L2) = Inr b2 \<and> resolve db P (version L1) = Inr b1)
   \<and> (version L1 \<noteq> version L2
      \<and> changes L1 P = Some (Bytes b1) \<and> changes L2 P = Some (Bytes b2)
    \<longrightarrow> resolve (fst (commit (fst (commit db0 L1)) L2)) P (version L2) = Inr b2
      \<and> resolve (fst (commit (fst (commit db0 L1)) L2)) P (version L1) = Inr b1)
   \<and> ((\<forall>l' \<in> set pre. changes l' P = None) \<and> changes l P = Some c
    \<longrightarrow> walk (pre @ l # post) snap P = (case c of Bytes b \<Rightarrow> Inr b | Tombstone \<Rightarrow> Inl NotFound))"
proof (intro conjI impI)
  assume a: "chain db = newer @ L2 # mid @ L1 # older \<and> distinct (map version (chain db))
      \<and> changes L1 P = Some (Bytes b1) \<and> changes L2 P = Some (Bytes b2)"
  then have c: "chain db = newer @ L2 # mid @ L1 # older"
    and dd: "distinct (map version (chain db))" by blast+
  from dd have d: "distinct (map version (newer @ L2 # mid @ L1 # older))"
    unfolding c .
  from d have n2: "version L2 \<notin> version ` set newer" by auto
  from d have n1: "version L1 \<notin> version ` set (newer @ L2 # mid)" by auto
  from a have c2: "chain db = newer @ L2 # (mid @ L1 # older)" by simp
  from a have c1: "chain db = (newer @ L2 # mid) @ L1 # older" by simp
  show "resolve db P (version L2) = Inr b2"
    using resolve_at_layer[OF c2 n2] a by simp
  show "resolve db P (version L1) = Inr b1"
    using resolve_at_layer[OF c1 n1] a by simp
next
  assume b: "version L1 \<noteq> version L2
      \<and> changes L1 P = Some (Bytes b1) \<and> changes L2 P = Some (Bytes b2)"
  then show "resolve (fst (commit (fst (commit db0 L1)) L2)) P (version L2) = Inr b2"
    by (simp add: resolve_after_commits)
  from b show "resolve (fst (commit (fst (commit db0 L1)) L2)) P (version L1) = Inr b1"
    by (simp add: resolve_after_commits)
next
  assume "(\<forall>l' \<in> set pre. changes l' P = None) \<and> changes l P = Some c"
  then have "\<forall>l' \<in> set pre. changes l' P = None" and "changes l P = Some c"
    by blast+
  then show "walk (pre @ l # post) snap P = (case c of Bytes b \<Rightarrow> Inr b | Tombstone \<Rightarrow> Inl NotFound)"
    by (rule walk_first_hit)
qed

text \<open>
  The theorem on a chain of three layers, versions 3, 2 and 1: the layers 2 and 1 both
  write the reference 0. And a walk through an untouched layer to a tombstone, over a
  snapshot that holds the reference.
\<close>

theorem latest_wins_witness:
  "resolve \<lparr>chain = [\<lparr>version = 3 :: nat, changes = Map.empty\<rparr>,
                      \<lparr>version = 2, changes = [0 :: nat \<mapsto> Bytes (22 :: nat)]\<rparr>,
                      \<lparr>version = 1, changes = [0 \<mapsto> Bytes 11]\<rparr>],
            snapshot = Map.empty\<rparr> 0 2 = Inr 22
   \<and> resolve \<lparr>chain = [\<lparr>version = 3 :: nat, changes = Map.empty\<rparr>,
                      \<lparr>version = 2, changes = [0 :: nat \<mapsto> Bytes (22 :: nat)]\<rparr>,
                      \<lparr>version = 1, changes = [0 \<mapsto> Bytes 11]\<rparr>],
            snapshot = Map.empty\<rparr> 0 1 = Inr 11
   \<and> walk [\<lparr>version = 3 :: nat, changes = Map.empty\<rparr>,
            \<lparr>version = 2, changes = [0 :: nat \<mapsto> Tombstone]\<rparr>,
            \<lparr>version = 1, changes = [0 \<mapsto> Bytes (11 :: nat)]\<rparr>] [0 \<mapsto> 5] 0 = Inl NotFound"
  using latest_wins[where db = "\<lparr>chain = [\<lparr>version = 3 :: nat, changes = Map.empty\<rparr>,
                      \<lparr>version = 2, changes = [0 :: nat \<mapsto> Bytes (22 :: nat)]\<rparr>,
                      \<lparr>version = 1, changes = [0 \<mapsto> Bytes 11]\<rparr>],
            snapshot = Map.empty\<rparr>"
      and newer = "[\<lparr>version = 3 :: nat, changes = Map.empty\<rparr>]"
      and ?L2.0 = "\<lparr>version = 2, changes = [0 :: nat \<mapsto> Bytes (22 :: nat)]\<rparr>"
      and mid = "[]"
      and ?L1.0 = "\<lparr>version = 1, changes = [0 \<mapsto> Bytes 11]\<rparr>"
      and older = "[]" and P = 0 and ?b1.0 = 11 and ?b2.0 = 22
      and pre = "[\<lparr>version = 3 :: nat, changes = Map.empty\<rparr>]"
      and l = "\<lparr>version = 2, changes = [0 :: nat \<mapsto> Tombstone]\<rparr>"
      and post = "[\<lparr>version = 1, changes = [0 \<mapsto> Bytes (11 :: nat)]\<rparr>]"
      and c = Tombstone and snap = "[0 \<mapsto> 5]"]
  by simp

lemma dropWhile_keeps_version:
  "v \<in> version ` set ls \<Longrightarrow> v \<in> version ` set (dropWhile (\<lambda>l. version l \<noteq> v) ls)"
  by (induction ls) auto

lemma rollback_twice: "rollback (fst (rollback db v)) v = rollback db v"
proof (cases "v \<in> version ` set (chain db)")
  case True
  then have "v \<in> version ` set (dropWhile (\<lambda>l. version l \<noteq> v) (chain db))"
    by (rule dropWhile_keeps_version)
  with True show ?thesis
    by (simp add: rollback_def)
next
  case False
  then show ?thesis
    by (simp add: rollback_def)
qed

text \<open>
  Claim C6. When \<open>v\<close> is the version of a layer \<open>l\<close> of the chain and of no newer
  layer, \<open>rollback v\<close> succeeds and leaves the chain from \<open>l\<close> on: exactly the layers
  newer than \<open>l\<close> are discarded, and the snapshot is untouched. When no layer of the
  chain has the version \<open>v\<close>, it fails with Unwindable and the state is unchanged. No
  other outcome exists. A second \<open>rollback v\<close> right after the first returns the state
  the first left, with the result of the first: a no-op after a success, Unwindable
  again after a failure.
\<close>

theorem rollback_semantics:
  "(chain db = newer @ l # older \<and> version l = v \<and> v \<notin> version ` set newer
      \<longrightarrow> rollback db v = (db\<lparr>chain := l # older\<rparr>, None))
   \<and> (v \<notin> version ` set (chain db) \<longrightarrow> rollback db v = (db, Some Unwindable))
   \<and> rollback (fst (rollback db v)) v = rollback db v
   \<and> (snd (rollback db v) = None \<or> snd (rollback db v) = Some Unwindable)"
proof (intro conjI impI)
  assume a: "chain db = newer @ l # older \<and> version l = v \<and> v \<notin> version ` set newer"
  then have "dropWhile (\<lambda>l'. version l' \<noteq> v) (chain db) = l # older"
    using dropWhile_to_layer[of l newer older] by auto
  with a show "rollback db v = (db\<lparr>chain := l # older\<rparr>, None)"
    by (simp add: rollback_def)
next
  assume "v \<notin> version ` set (chain db)"
  then show "rollback db v = (db, Some Unwindable)"
    by (simp add: rollback_def)
next
  show "rollback (fst (rollback db v)) v = rollback db v"
    by (rule rollback_twice)
next
  show "snd (rollback db v) = None \<or> snd (rollback db v) = Some Unwindable"
    by (simp add: rollback_def)
qed

text \<open>
  The theorem on a chain of the versions 3, 2 and 1 rolled back to 2, and on a chain of
  the version 3 alone rolled back to the absent version 7.
\<close>

theorem rollback_semantics_witness:
  "rollback \<lparr>chain = [\<lparr>version = 3 :: nat, changes = Map.empty :: nat \<rightharpoonup> nat change\<rparr>,
                       \<lparr>version = 2, changes = Map.empty\<rparr>,
                       \<lparr>version = 1, changes = Map.empty\<rparr>],
             snapshot = Map.empty\<rparr> 2
     = (\<lparr>chain = [\<lparr>version = 2, changes = Map.empty\<rparr>, \<lparr>version = 1, changes = Map.empty\<rparr>],
         snapshot = Map.empty\<rparr>, None)
   \<and> rollback \<lparr>chain = [\<lparr>version = 3 :: nat, changes = Map.empty :: nat \<rightharpoonup> nat change\<rparr>],
               snapshot = Map.empty\<rparr> 7
     = (\<lparr>chain = [\<lparr>version = 3, changes = Map.empty\<rparr>], snapshot = Map.empty\<rparr>,
        Some Unwindable)"
  using rollback_semantics[where db = "\<lparr>chain = [\<lparr>version = 3 :: nat, changes = Map.empty :: nat \<rightharpoonup> nat change\<rparr>,
                       \<lparr>version = 2, changes = Map.empty\<rparr>,
                       \<lparr>version = 1, changes = Map.empty\<rparr>],
             snapshot = Map.empty :: nat \<rightharpoonup> nat\<rparr>"
      and newer = "[\<lparr>version = 3 :: nat, changes = Map.empty\<rparr>]"
      and l = "\<lparr>version = 2, changes = Map.empty\<rparr>"
      and older = "[\<lparr>version = 1, changes = Map.empty\<rparr>]" and v = 2]
    rollback_semantics[where db = "\<lparr>chain = [\<lparr>version = 3 :: nat, changes = Map.empty :: nat \<rightharpoonup> nat change\<rparr>],
               snapshot = Map.empty :: nat \<rightharpoonup> nat\<rparr>" and v = 7]
  by simp

end
